theory Spec2Isabelle
  imports Complex_Main "HOL-Library.Word" "HOL-Library.Char_ord" "HOL-Library.List_Lexorder"
    "HOL-Library.AList"
begin

section \<open>Python values used by main.py\<close>

text \<open>
  The exceptions main.py can raise in the code modelled here. A handler that raises is
  modelled as returning the exception as a value.
\<close>

datatype error =
    TypeError | ValueError | AttributeError | IndexError | KeyError
  | ZeroDivisionError | CancelledError | AssertionError

text \<open>
  A decoded PIL image is represented by the byte buffer \<open>image.tobytes()\<close> returns, which
  is all \<open>calculate_psnr\<close> reads of it. A PIL image object is always truthy.
\<close>

type_synonym pil_image = "8 word list"

text \<open>
  A Python float is a real number or nan. Rounding of float64 arithmetic is not modelled:
  finite values are computed over the reals.
\<close>

datatype pyfloat = Fin real | NaN

text \<open>
  Python list indexing \<open>xs[i]\<close>. An index from \<open>-len(xs)\<close> to \<open>-1\<close> counts from the
  end; \<open>py_pos\<close> is the position read in a list of \<open>n\<close> elements.
\<close>

definition py_pos :: "nat \<Rightarrow> int \<Rightarrow> error + nat" where
  "py_pos n i =
     (if 0 \<le> i \<and> i < int n then Inr (nat i)
      else if i < 0 \<and> - int n \<le> i then Inr (nat (int n + i))
      else Inl IndexError)"

definition py_index :: "'a list \<Rightarrow> int \<Rightarrow> error + 'a" where
  "py_index xs i =
     (case py_pos (length xs) i of Inl e \<Rightarrow> Inl e | Inr k \<Rightarrow> Inr (xs ! k))"

section \<open>ImageView.calculate\_psnr\<close>

text \<open>
  \<open>im_array - gt_array\<close> on two one-dimensional uint8 arrays: elementwise when the lengths
  agree, broadcast when one of them has length 1, ValueError otherwise. The result has
  dtype uint8, so every difference wraps modulo 256.
\<close>

definition np_sub :: "8 word list \<Rightarrow> 8 word list \<Rightarrow> error + 8 word list" where
  "np_sub a b =
     (if length a = length b then Inr (map2 (\<lambda>x y. x - y) a b)
      else if length b = 1 then Inr (map (\<lambda>x. x - hd b) a)
      else if length a = 1 then Inr (map (\<lambda>y. hd a - y) b)
      else Inl ValueError)"

text \<open>\<open>d ** 2\<close> on a uint8 array keeps dtype uint8: the square wraps modulo 256.\<close>

definition np_square :: "8 word list \<Rightarrow> 8 word list" where
  "np_square d = map (\<lambda>x. x * x) d"

text \<open>\<open>.mean()\<close> accumulates in float64; the mean of an empty array is nan.\<close>

definition np_mean :: "8 word list \<Rightarrow> pyfloat" where
  "np_mean xs =
     (if xs = [] then NaN
      else Fin (real (sum_list (map unat xs)) / real (length xs)))"

text \<open>\<open>math.log10\<close>: ValueError (math domain error) at zero and below, nan at nan.\<close>

definition math_log10 :: "pyfloat \<Rightarrow> error + pyfloat" where
  "math_log10 x =
     (case x of
        NaN \<Rightarrow> Inr NaN
      | Fin r \<Rightarrow> if r \<le> 0 then Inl ValueError else Inr (Fin (log 10 r)))"

definition mse :: "8 word list \<Rightarrow> 8 word list \<Rightarrow> error + pyfloat" where
  "mse im_array gt_array =
     (case np_sub im_array gt_array of
        Inl e \<Rightarrow> Inl e
      | Inr d \<Rightarrow> Inr (np_mean (np_square d)))"

text \<open>\<open>20.0 * math.log10(255) - 10.0 * math.log10(mse)\<close>\<close>

definition psnr_of_mse :: "pyfloat \<Rightarrow> error + pyfloat" where
  "psnr_of_mse m =
     (case math_log10 m of
        Inl e \<Rightarrow> Inl e
      | Inr NaN \<Rightarrow> Inr NaN
      | Inr (Fin l) \<Rightarrow> Inr (Fin (20 * log 10 255 - 10 * l)))"

text \<open>
  The logarithm is not computable: evaluation by the code equations leaves these two
  functions as they are.
\<close>

declare math_log10_def [code del] psnr_of_mse_def [code del]

text \<open>
  The comparison text of a view: \<open>'GT'\<close>, or \<open>f'PSNR: {psnr:.2f}dB'\<close>, of which the
  model keeps the value that is formatted.
\<close>

datatype comparison = GT | PSNR pyfloat

text \<open>
  An ImageView. The future is held by its number in the executor's list of submitted
  futures (see below); the field \<open>image\<close>, here \<open>view_image\<close>, is None until \<open>get_image\<close> has pulled it.
\<close>

record view =
  view_path :: string
  future :: nat
  view_image :: "pil_image option"
  comparison_text :: "comparison option"

definition set_gt :: "view \<Rightarrow> view" where
  "set_gt v = v\<lparr>comparison_text := Some GT\<rparr>"

text \<open>
  \<open>calculate_psnr(self, ground_truth_image)\<close>. \<open>self.image.tobytes()\<close> raises
  AttributeError when \<open>self.image\<close> is None, and so does
  \<open>ground_truth_image.tobytes()\<close> on None.
\<close>

definition calculate_psnr :: "view \<Rightarrow> pil_image option \<Rightarrow> error + view" where
  "calculate_psnr v ground_truth_image =
     (case view_image v of
        None \<Rightarrow> Inl AttributeError
      | Some im_array \<Rightarrow>
          (case ground_truth_image of
             None \<Rightarrow> Inl AttributeError
           | Some gt_array \<Rightarrow>
               (case mse im_array gt_array of
                  Inl e \<Rightarrow> Inl e
                | Inr m \<Rightarrow>
                    (case psnr_of_mse m of
                       Inl e \<Rightarrow> Inl e
                     | Inr p \<Rightarrow> Inr (v\<lparr>comparison_text := Some (PSNR p)\<rparr>)))))"

text \<open>
  The metric as the specification words it: the exact arithmetic mean of the squared
  differences of the bytes, taken as integers, and the PSNR of that mean.
\<close>

definition exact_mse :: "8 word list \<Rightarrow> 8 word list \<Rightarrow> real" where
  "exact_mse c r =
     real_of_int (sum_list (map2 (\<lambda>x y. (uint x - uint y)\<^sup>2) c r)) / real (length c)"

definition spec_psnr :: "8 word list \<Rightarrow> 8 word list \<Rightarrow> real" where
  "spec_psnr c r = 20 * log 10 255 - 10 * log 10 (exact_mse c r)"

section \<open>ImageSource\<close>

text \<open>
  What the constructor reads of a directory: the content of \<open>label.txt\<close> when that is a
  file, and the names of \<open>os.listdir(path)\<close> that \<open>is_image_file\<close> accepts, in listing
  order. A file system maps a path to its directory, None where \<open>os.path.isdir\<close> is False.
\<close>

record dir =
  dir_label :: "string option"
  dir_images :: "string list"

type_synonym filesystem = "string \<Rightarrow> dir option"

text \<open>
  \<open>files\<close> is the dict of the source as an association list in insertion order; it is
  only ever built by \<open>AList.update\<close>, so its keys are distinct.
\<close>

record source =
  path :: string
  label :: string
  files :: "(string \<times> string) list"

text \<open>The slice \<open>f[:n]\<close>; a negative \<open>n\<close> drops the last \<open>-n\<close> characters.\<close>

definition py_prefix :: "int \<Rightarrow> string \<Rightarrow> string" where
  "py_prefix n f = (if 0 \<le> n then take (nat n) f else take (length f - nat (- n)) f)"

definition basename :: "string \<Rightarrow> string" where
  "basename p = rev (takeWhile (\<lambda>c. c \<noteq> CHR ''/'') (rev p))"

definition path_join :: "string \<Rightarrow> string \<Rightarrow> string" where
  "path_join a b =
     (if b \<noteq> [] \<and> hd b = CHR ''/'' then b
      else if a = [] \<or> last a = CHR ''/'' then a @ b
      else a @ ''/'' @ b)"

text \<open>
  \<open>ImageSource(path, prefix_length)\<close>: the assertion fails when the path is not a
  directory; in the dict comprehension a later file with the same prefix overwrites.
\<close>

definition ImageSource :: "filesystem \<Rightarrow> string \<Rightarrow> int \<Rightarrow> error + source" where
  "ImageSource fs p prefix_len =
     (case fs p of
        None \<Rightarrow> Inl AssertionError
      | Some d \<Rightarrow>
          Inr \<lparr>path = p,
               label = (case dir_label d of Some l \<Rightarrow> l | None \<Rightarrow> basename p),
               files = fold (\<lambda>f m. AList.update (py_prefix prefix_len f) f m)
                         (dir_images d) []\<rparr>)"

definition keys :: "source \<Rightarrow> string list" where
  "keys src = map fst (files src)"

definition get_file :: "source \<Rightarrow> string \<Rightarrow> error + string" where
  "get_file src key =
     (case map_of (files src) key of
        None \<Rightarrow> Inl KeyError
      | Some f \<Rightarrow> Inr (path_join (path src) f))"

section \<open>The executor and its futures\<close>

text \<open>
  \<open>self.loader\<close> is a ThreadPoolExecutor. The model keeps the list of the calls
  \<open>load_image_worker_thread(path, index)\<close> submitted to it, each with the state of its
  future; a view refers to its future by the position in this list. \<open>Finished r\<close> holds
  the value the worker returned: the decoded image, or None when decoding raised.
\<close>

datatype future_state = Pending | Running | Cancelled | Finished "pil_image option"

record task =
  task_path :: string
  task_index :: nat
  task_state :: future_state

text \<open>\<open>future.cancel()\<close> cancels a call that has not started and leaves any other.\<close>

definition cancel :: "task list \<Rightarrow> nat \<Rightarrow> task list" where
  "cancel futs f =
     (if f < length futs \<and> task_state (futs ! f) = Pending
      then futs[f := (futs ! f)\<lparr>task_state := Cancelled\<rparr>]
      else futs)"

text \<open>
  \<open>ImageView.get_image\<close>. \<open>future.done()\<close> is True for a finished and for a cancelled
  future, and \<open>future.result()\<close> of a cancelled one raises CancelledError.
\<close>

definition get_image :: "task list \<Rightarrow> view \<Rightarrow> error + view \<times> pil_image option" where
  "get_image futs v =
     (case view_image v of
        Some im \<Rightarrow> Inr (v, Some im)
      | None \<Rightarrow>
          (case task_state (futs ! future v) of
             Finished r \<Rightarrow> Inr (v\<lparr>view_image := r\<rparr>, r)
           | Cancelled \<Rightarrow> Inl CancelledError
           | _ \<Rightarrow> Inr (v, None)))"

section \<open>ImageCompareApp\<close>

text \<open>
  The fields of the application object that its handlers read and write, with the
  executor's futures and the size the canvas reports (\<open>winfo_width\<close>, \<open>winfo_height\<close>).
  Menus, the window title, the rendered canvas and the settings file are not part of
  the model.
\<close>

record app =
  loader :: "task list"
  image_sources :: "source option list"
  image_views :: "view option list"
  key_list :: "string list"
  current_key :: "int option"
  gt_index :: "int option"
  prefix_length :: int
  dragging :: bool
  zoom :: real
  crop_center :: "real \<times> real"
  start_drag_crop_center :: "real \<times> real"
  start_drag_mouse :: "int \<times> int"
  canvas_size :: "int \<times> int"

text \<open>
  A handler returns the state it leaves and the exception it raised, if any: Tk reports
  an exception of a callback and goes on with the state as the handler left it.
\<close>

type_synonym outcome = "error option \<times> app"

definition and_then :: "outcome \<Rightarrow> (app \<Rightarrow> outcome) \<Rightarrow> outcome" where
  "and_then r f = (case r of (None, s) \<Rightarrow> f s | (Some e, s) \<Rightarrow> (Some e, s))"

subsection \<open>update\_key\_list\<close>

text \<open>
  \<open>set.intersection(*(set(source.files.keys()) for source in available_sources))\<close>:
  called with no argument it raises TypeError; otherwise it is the first set
  intersected with all the others.
\<close>

definition common_keys :: "source list \<Rightarrow> error + string list" where
  "common_keys available_sources =
     (case available_sources of
        [] \<Rightarrow> Inl TypeError
      | src # others \<Rightarrow>
          Inr (filter (\<lambda>k. list_all (\<lambda>t. k \<in> set (keys t)) others) (keys src)))"

definition available :: "source option list \<Rightarrow> source list" where
  "available srcs = List.map_filter (\<lambda>x. x) srcs"

text \<open>
  The menu entries that \<open>update_key_list\<close> relabels are not modelled; every caller passes
  as \<open>update_indices\<close> slots that hold a source, so those reads do not raise.
\<close>

definition update_key_list :: "app \<Rightarrow> outcome" where
  "update_key_list s =
     (case common_keys (available (image_sources s)) of
        Inl e \<Rightarrow> (Some e, s)
      | Inr ks \<Rightarrow>
          (let kl = sort (remdups ks)
           in (None,
               s\<lparr>key_list := kl,
                 current_key :=
                   (if length kl = 0 then None
                    else (case current_key s of
                            None \<Rightarrow> Some 0
                          | Some k \<Rightarrow> Some (min k (int (length kl) - 1))))\<rparr>)))"

subsection \<open>load\_images\<close>

definition cancel_remaining :: "view option list \<Rightarrow> task list \<Rightarrow> task list" where
  "cancel_remaining views futs =
     fold (\<lambda>vo fs. case vo of
                      None \<Rightarrow> fs
                    | Some v \<Rightarrow> if view_image v = None then cancel fs (future v) else fs)
          views futs"

definition ImageView :: "string \<Rightarrow> nat \<Rightarrow> view" where
  "ImageView p fut = \<lparr>view_path = p, future = fut, view_image = None, comparison_text = None\<rparr>"

text \<open>
  \<open>self.loader.submit(self.load_image_worker_thread, path, i)\<close>: the new future is the
  next position of the list.
\<close>

definition submit :: "string \<Rightarrow> nat \<Rightarrow> app \<Rightarrow> nat \<times> app" where
  "submit p i s =
     (length (loader s),
      s\<lparr>loader := loader s @ [\<lparr>task_path = p, task_index = i, task_state = Pending\<rparr>]\<rparr>)"

fun submit_loads :: "string \<Rightarrow> nat list \<Rightarrow> app \<Rightarrow> outcome" where
  "submit_loads key [] s = (None, s)"
| "submit_loads key (i # rest) s =
     (case image_sources s ! i of
        None \<Rightarrow> submit_loads key rest s
      | Some src \<Rightarrow>
          (case get_file src key of
             Inl e \<Rightarrow> (Some e, s)
           | Inr p \<Rightarrow>
               (case submit p i s of
                  (fut, s') \<Rightarrow>
                    submit_loads key rest
                      (s'\<lparr>image_views := (image_views s')[i := Some (ImageView p fut)]\<rparr>))))"

definition load_images :: "app \<Rightarrow> outcome" where
  "load_images s =
     (let s1 = s\<lparr>loader := cancel_remaining (image_views s) (loader s)\<rparr>
      in case current_key s1 of
           None \<Rightarrow> (None, s1\<lparr>image_views := [None, None, None, None]\<rparr>)
         | Some k \<Rightarrow>
             (case py_index (key_list s1) k of
                Inl e \<Rightarrow> (Some e, s1)
              | Inr key \<Rightarrow>
                  and_then (submit_loads key [0 ..< length (image_sources s1)] s1)
                    (\<lambda>s2. (None, s2\<lparr>zoom := 1, crop_center := (1/2, 1/2),
                                     dragging := False\<rparr>))))"

subsection \<open>show\<close>

text \<open>\<open>IMAGE_GAP = 5\<close>, \<open>TEXT_BAR_HEIGHT = 20\<close>; \<open>//\<close> is floor division.\<close>

definition current_cell_size :: "app \<Rightarrow> int \<times> int" where
  "current_cell_size s =
     (case canvas_size s of
        (canvas_w, canvas_h) \<Rightarrow> ((canvas_w - 5) div 2, (canvas_h - 5 - 2 * 20) div 2))"

text \<open>
  The loop of \<open>show\<close> over \<open>redraw_cells\<close>. Of its body the model keeps what touches the
  application state and what can raise: \<open>view.get_image()\<close>, which stores a finished
  image in the view, and the read of \<open>self.image_sources[i].label\<close>. Cropping, resizing
  and drawing are not modelled.
\<close>

fun show_loop :: "nat list \<Rightarrow> app \<Rightarrow> outcome" where
  "show_loop [] s = (None, s)"
| "show_loop (i # rest) s =
     (case py_index (image_views s) (int i) of
        Inl e \<Rightarrow> (Some e, s)
      | Inr None \<Rightarrow> show_loop rest s
      | Inr (Some v) \<Rightarrow>
          (case get_image (loader s) v of
             Inl e \<Rightarrow> (Some e, s)
           | Inr (v', im) \<Rightarrow>
               (let s' = s\<lparr>image_views := (image_views s)[i := Some v']\<rparr>
                in case image_sources s' ! i of
                     None \<Rightarrow> (Some AttributeError, s')
                   | Some src \<Rightarrow> show_loop rest s')))"

text \<open>
  \<open>show(redraw_cells)\<close>; the window title reads \<open>self.current_key + 1\<close> when the key
  list is not empty, a TypeError when \<open>current_key\<close> is None.
\<close>

definition show_grid :: "nat list \<Rightarrow> app \<Rightarrow> outcome" where
  "show_grid redraw_cells s =
     (case current_cell_size s of
        (cell_w, cell_h) \<Rightarrow>
          if cell_w \<le> 0 \<or> cell_h \<le> 0 then (None, s)
          else and_then (show_loop redraw_cells s)
                 (\<lambda>s'. if length (key_list s') \<noteq> 0 \<and> current_key s' = None
                        then (Some TypeError, s') else (None, s')))"

definition all_cells :: "nat list" where
  "all_cells = [0, 1, 2, 3]"

subsection \<open>Ground truth and comparison\<close>

definition put_view :: "nat \<Rightarrow> view \<Rightarrow> app \<Rightarrow> app" where
  "put_view i v s = s\<lparr>image_views := (image_views s)[i := Some v]\<rparr>"

text \<open>The loop of \<open>menu_set_gt\<close> over \<open>enumerate(self.image_views)\<close>, with \<open>g = self.gt_index\<close>.\<close>

fun set_gt_loop :: "nat \<Rightarrow> nat list \<Rightarrow> app \<Rightarrow> outcome" where
  "set_gt_loop g [] s = (None, s)"
| "set_gt_loop g (i # rest) s =
     (case image_views s ! i of
        None \<Rightarrow> set_gt_loop g rest s
      | Some v \<Rightarrow>
          if i = g then set_gt_loop g rest (put_view i (set_gt v) s)
          else (case py_index (image_views s) (int g) of
                  Inl e \<Rightarrow> (Some e, s)
                | Inr None \<Rightarrow> set_gt_loop g rest s
                | Inr (Some gv) \<Rightarrow>
                    (case view_image gv of
                       None \<Rightarrow> set_gt_loop g rest s
                     | Some gim \<Rightarrow>
                         (case calculate_psnr v (Some gim) of
                            Inl e \<Rightarrow> (Some e, s)
                          | Inr v' \<Rightarrow> set_gt_loop g rest (put_view i v' s)))))"

definition menu_set_gt :: "nat \<Rightarrow> app \<Rightarrow> outcome" where
  "menu_set_gt index s =
     (let s1 = s\<lparr>gt_index := Some (int index)\<rparr>
      in and_then (set_gt_loop index [0 ..< length (image_views s1)] s1)
           (show_grid all_cells))"

text \<open>\<open>self.image_views[i].get_image()\<close> for an index as Python reads it.\<close>

definition view_get_image :: "int \<Rightarrow> app \<Rightarrow> error + app \<times> pil_image option" where
  "view_get_image i s =
     (case py_pos (length (image_views s)) i of
        Inl e \<Rightarrow> Inl e
      | Inr k \<Rightarrow>
          (case image_views s ! k of
             None \<Rightarrow> Inl AttributeError
           | Some v \<Rightarrow>
               (case get_image (loader s) v of
                  Inl e \<Rightarrow> Inl e
                | Inr (v', im) \<Rightarrow> Inr (put_view k v' s, im))))"

text \<open>
  The loop of \<open>on_image_load_main_thread\<close> taken when \<open>index == self.gt_index\<close>; unlike
  the loop of \<open>menu_set_gt\<close> it does not skip an empty slot.
\<close>

fun gt_loaded_loop :: "nat \<Rightarrow> nat list \<Rightarrow> app \<Rightarrow> outcome" where
  "gt_loaded_loop index [] s = (None, s)"
| "gt_loaded_loop index (i # rest) s =
     (case image_views s ! i of
        None \<Rightarrow> (Some AttributeError, s)
      | Some v \<Rightarrow>
          if i = index then gt_loaded_loop index rest (put_view i (set_gt v) s)
          else (case get_image (loader s) v of
                  Inl e \<Rightarrow> (Some e, s)
                | Inr (v', None) \<Rightarrow> gt_loaded_loop index rest (put_view i v' s)
                | Inr (v', Some im) \<Rightarrow>
                    (case view_get_image (int index) (put_view i v' s) of
                       Inl e \<Rightarrow> (Some e, put_view i v' s)
                     | Inr (s2, gim) \<Rightarrow>
                         (case calculate_psnr v' gim of
                            Inl e \<Rightarrow> (Some e, s2)
                          | Inr v'' \<Rightarrow> gt_loaded_loop index rest (put_view i v'' s2)))))"

text \<open>The branch of \<open>on_image_load_main_thread\<close> for a view that is not the ground truth.\<close>

definition compare_new_image :: "nat \<Rightarrow> app \<Rightarrow> outcome" where
  "compare_new_image index s =
     (case gt_index s of
        None \<Rightarrow> (None, s)
      | Some g \<Rightarrow>
          (case py_index (image_views s) g of
             Inl e \<Rightarrow> (Some e, s)
           | Inr None \<Rightarrow> (None, s)
           | Inr (Some gv) \<Rightarrow>
               (case view_get_image g s of
                  Inl e \<Rightarrow> (Some e, s)
                | Inr (s2, None) \<Rightarrow> (None, s2)
                | Inr (s2, Some gim) \<Rightarrow>
                    (case py_index (image_views s2) (int index) of
                       Inl e \<Rightarrow> (Some e, s2)
                     | Inr None \<Rightarrow> (Some AttributeError, s2)
                     | Inr (Some v) \<Rightarrow>
                         (case calculate_psnr v (Some gim) of
                            Inl e \<Rightarrow> (Some e, s2)
                          | Inr v' \<Rightarrow> (None, put_view index v' s2))))))"

definition on_image_load_main_thread :: "nat \<Rightarrow> app \<Rightarrow> outcome" where
  "on_image_load_main_thread index s =
     (case view_get_image (int index) s of
        Inl e \<Rightarrow> (Some e, s)
      | Inr (s1, im) \<Rightarrow>
          if gt_index s1 = Some (int index)
          then and_then (gt_loaded_loop index [0 ..< length (image_views s1)] s1)
                 (show_grid all_cells)
          else and_then (compare_new_image index s1) (show_grid [index]))"

subsection \<open>Menus and navigation\<close>

text \<open>
  \<open>menu_change_view\<close>: \<open>chosen\<close> is what the directory dialog returned, empty when it
  was dismissed. \<open>save_settings\<close>, which ends this and the next handlers, writes the
  settings file and is not modelled.
\<close>

definition menu_change_view :: "nat \<Rightarrow> string \<Rightarrow> filesystem \<Rightarrow> app \<Rightarrow> outcome" where
  "menu_change_view index chosen fs s =
     (if chosen = [] then (None, s)
      else (case ImageSource fs chosen (prefix_length s) of
              Inl e \<Rightarrow> (Some e, s)
            | Inr src \<Rightarrow>
                if length (image_sources s) \<le> index then (Some IndexError, s)
                else
                  (let s1 = s\<lparr>image_sources := (image_sources s)[index := Some src]\<rparr>;
                       s2 = (if gt_index s1 = Some (int index) then s1\<lparr>gt_index := None\<rparr>
                             else s1)
                   in and_then (and_then (update_key_list s2) load_images)
                        (show_grid all_cells))))"

definition menu_go_to_key :: "int \<Rightarrow> app \<Rightarrow> outcome" where
  "menu_go_to_key index s =
     and_then (load_images (s\<lparr>current_key := Some index\<rparr>)) (show_grid all_cells)"

text \<open>The list comprehension that recreates every source with the new prefix length.\<close>

fun recreate_sources ::
  "filesystem \<Rightarrow> int \<Rightarrow> source option list \<Rightarrow> error + source option list" where
  "recreate_sources fs n [] = Inr []"
| "recreate_sources fs n (None # rest) =
     (case recreate_sources fs n rest of Inl e \<Rightarrow> Inl e | Inr xs \<Rightarrow> Inr (None # xs))"
| "recreate_sources fs n (Some src # rest) =
     (case ImageSource fs (path src) n of
        Inl e \<Rightarrow> Inl e
      | Inr x \<Rightarrow>
          (case recreate_sources fs n rest of
             Inl e \<Rightarrow> Inl e
           | Inr xs \<Rightarrow> Inr (Some x # xs)))"

text \<open>\<open>result\<close> is what \<open>simpledialog.askinteger\<close> returned, None when dismissed.\<close>

definition menu_enter_prefix_length :: "int option \<Rightarrow> filesystem \<Rightarrow> app \<Rightarrow> outcome" where
  "menu_enter_prefix_length result fs s =
     (case result of
        None \<Rightarrow> (None, s)
      | Some n \<Rightarrow>
          (let s1 = s\<lparr>prefix_length := n\<rparr>
           in case recreate_sources fs n (image_sources s1) of
                Inl e \<Rightarrow> (Some e, s1)
              | Inr srcs \<Rightarrow>
                  and_then (and_then (update_key_list (s1\<lparr>image_sources := srcs\<rparr>))
                              load_images)
                    (show_grid all_cells)))"

text \<open>
  \<open>(self.current_key + 1) % len(self.key_list)\<close>: the sum is evaluated first and raises
  TypeError on None; the remainder raises ZeroDivisionError on an empty list.
\<close>

definition next_image :: "app \<Rightarrow> outcome" where
  "next_image s =
     (case current_key s of
        None \<Rightarrow> (Some TypeError, s)
      | Some k \<Rightarrow>
          if length (key_list s) = 0 then (Some ZeroDivisionError, s)
          else and_then
                 (load_images (s\<lparr>current_key := Some ((k + 1) mod int (length (key_list s)))\<rparr>))
                 (show_grid all_cells))"

definition prev_image :: "app \<Rightarrow> outcome" where
  "prev_image s =
     (case current_key s of
        None \<Rightarrow> (Some TypeError, s)
      | Some k \<Rightarrow>
          if length (key_list s) = 0 then (Some ZeroDivisionError, s)
          else and_then
                 (load_images
                    (s\<lparr>current_key :=
                         Some ((k + int (length (key_list s)) - 1) mod int (length (key_list s)))\<rparr>))
                 (show_grid all_cells))"

subsection \<open>Zoom and drag\<close>

text \<open>
  The fields \<open>num\<close>, \<open>delta\<close>, \<open>x\<close> and \<open>y\<close> of a Tk event. \<open>num\<close> is 4 or 5 for the Linux scroll
  buttons and \<open>'??'\<close>, here None, for a mouse-wheel event.
\<close>

record tk_event =
  event_num :: "int option"
  event_delta :: int
  event_x :: int
  event_y :: int

definition zoom_delta :: "tk_event \<Rightarrow> int" where
  "zoom_delta event =
     (if event_num event = Some 4 then 1
      else if event_num event = Some 5 then - 1
      else if event_delta event \<noteq> 0 then (if event_delta event > 0 then 1 else - 1)
      else 0)"

definition clamp_center :: "real \<Rightarrow> real \<Rightarrow> real" where
  "clamp_center c half_crop_size = min (max c half_crop_size) (1 - half_crop_size)"

definition on_zoom :: "tk_event \<Rightarrow> app \<Rightarrow> outcome" where
  "on_zoom event s =
     (let factor = (if zoom_delta event > 0 then 11 / 10 else 9 / 10);
          z = max 1 (min (zoom s * factor) 100);
          half_crop_size = (1 / 2) / z
      in case crop_center s of
           (cx, cy) \<Rightarrow>
             show_grid all_cells
               (s\<lparr>zoom := z,
                  crop_center := (clamp_center cx half_crop_size,
                                  clamp_center cy half_crop_size)\<rparr>))"

definition start_drag :: "tk_event \<Rightarrow> app \<Rightarrow> outcome" where
  "start_drag event s =
     (None, s\<lparr>dragging := True, start_drag_mouse := (event_x event, event_y event),
              start_drag_crop_center := crop_center s\<rparr>)"

definition stop_drag :: "app \<Rightarrow> outcome" where
  "stop_drag s = show_grid all_cells (s\<lparr>dragging := False\<rparr>)"

text \<open>
  \<open>do_drag\<close>: a true division by \<open>cell_w * self.zoom\<close> or \<open>cell_h * self.zoom\<close> raises
  ZeroDivisionError when that product is zero.
\<close>

definition do_drag :: "tk_event \<Rightarrow> app \<Rightarrow> outcome" where
  "do_drag event s =
     (if \<not> dragging s then (None, s)
      else
        (let dx = event_x event - fst (start_drag_mouse s);
             dy = event_y event - snd (start_drag_mouse s)
         in case current_cell_size s of
              (cell_w, cell_h) \<Rightarrow>
                (case start_drag_crop_center s of
                   (cx, cy) \<Rightarrow>
                     if real_of_int cell_w * zoom s = 0 then (Some ZeroDivisionError, s)
                     else if real_of_int cell_h * zoom s = 0 then (Some ZeroDivisionError, s)
                     else
                       (let cx' = cx - real_of_int dx / (real_of_int cell_w * zoom s);
                            cy' = cy - real_of_int dy / (real_of_int cell_h * zoom s);
                            half_crop_size = (1 / 2) / zoom s
                        in show_grid all_cells
                             (s\<lparr>crop_center := (clamp_center cx' half_crop_size,
                                                 clamp_center cy' half_crop_size)\<rparr>)))))"

text \<open>\<open>after_resize\<close> recreates the canvas image and shows.\<close>

definition after_resize :: "app \<Rightarrow> outcome" where
  "after_resize s = show_grid all_cells s"

subsection \<open>Worker threads\<close>

text \<open>
  A worker thread takes a pending call and later returns from
  \<open>load_image_worker_thread\<close>: with the image, after scheduling
  \<open>on_image_load_main_thread(index)\<close> on the main thread, or with None when opening the
  file raised. Workers touch nothing of the application but their future.
\<close>

definition worker_start :: "nat \<Rightarrow> app \<Rightarrow> app" where
  "worker_start f s =
     (if f < length (loader s) \<and> task_state (loader s ! f) = Pending
      then s\<lparr>loader := (loader s)[f := (loader s ! f)\<lparr>task_state := Running\<rparr>]\<rparr>
      else s)"

definition worker_return :: "nat \<Rightarrow> pil_image option \<Rightarrow> app \<Rightarrow> app" where
  "worker_return f r s =
     (if f < length (loader s) \<and> task_state (loader s ! f) = Running
      then s\<lparr>loader := (loader s)[f := (loader s ! f)\<lparr>task_state := Finished r\<rparr>]\<rparr>
      else s)"

subsection \<open>Start-up\<close>

text \<open>
  The settings file as \<open>__init__\<close> reads it: \<open>saved_sources\<close> is None when the key
  \<open>'sources'\<close> is missing, and each of the other fields is None when its key is missing
  or its value is not of type \<open>int\<close>.
\<close>

record settings =
  saved_sources :: "string list option"
  saved_prefix_length :: "int option"
  saved_key_index :: "int option"
  saved_gt_index :: "int option"

definition initial :: "int \<times> int \<Rightarrow> app" where
  "initial canvas =
     \<lparr>loader = [],
      image_sources = [None, None, None, None],
      image_views = [None, None, None, None],
      key_list = [],
      current_key = None,
      gt_index = None,
      prefix_length = 8,
      dragging = False,
      zoom = 1,
      crop_center = (1/2, 1/2),
      start_drag_crop_center = (0, 0),
      start_drag_mouse = (0, 0),
      canvas_size = canvas\<rparr>"

text \<open>
  \<open>for i, path in enumerate(settings['sources'])\<close>: a path that is a directory becomes
  the source of slot \<open>i\<close>, an IndexError when there is no such slot.
\<close>

fun load_sources ::
  "filesystem \<Rightarrow> int \<Rightarrow> (nat \<times> string) list \<Rightarrow> source option list
     \<Rightarrow> error + source option list" where
  "load_sources fs n [] srcs = Inr srcs"
| "load_sources fs n ((i, p) # rest) srcs =
     (if fs p = None then load_sources fs n rest srcs
      else (case ImageSource fs p n of
              Inl e \<Rightarrow> Inl e
            | Inr src \<Rightarrow>
                if length srcs \<le> i then Inl IndexError
                else load_sources fs n rest (srcs[i := Some src])))"

text \<open>Lines 147 to 150: the key index and the ground truth of the settings file.\<close>

definition restore_key_index :: "settings \<Rightarrow> app \<Rightarrow> app" where
  "restore_key_index st s =
     (case saved_key_index st of
        None \<Rightarrow> s
      | Some k \<Rightarrow>
          if length (key_list s) > 0
          then s\<lparr>current_key := Some (min k (int (length (key_list s))))\<rparr>
          else s)"

definition restore_gt_index :: "settings \<Rightarrow> app \<Rightarrow> app" where
  "restore_gt_index st s =
     (case saved_gt_index st of None \<Rightarrow> s | Some g \<Rightarrow> s\<lparr>gt_index := Some g\<rparr>)"

text \<open>Lines 137 to 146: the prefix length, the sources and the key list.\<close>

definition load_saved_sources :: "settings \<Rightarrow> filesystem \<Rightarrow> string list \<Rightarrow> app \<Rightarrow> outcome" where
  "load_saved_sources st fs paths s =
     (let s1 = (case saved_prefix_length st of
                  None \<Rightarrow> s
                | Some n \<Rightarrow> s\<lparr>prefix_length := n\<rparr>)
      in case load_sources fs (prefix_length s1) (enumerate 0 paths) (image_sources s1) of
           Inl e \<Rightarrow> (Some e, s1)
         | Inr srcs \<Rightarrow> update_key_list (s1\<lparr>image_sources := srcs\<rparr>))"

definition load_savestate :: "settings \<Rightarrow> filesystem \<Rightarrow> app \<Rightarrow> outcome" where
  "load_savestate st fs s =
     (case saved_sources st of
        None \<Rightarrow> (None, s)
      | Some paths \<Rightarrow>
          and_then (load_saved_sources st fs paths s)
            (\<lambda>s2. load_images (restore_gt_index st (restore_key_index st s2))))"

text \<open>
  \<open>__init__\<close>: \<open>saved\<close> is None when there is no settings file. An exception raised in
  the constructor ends the program, so there is no application then.
\<close>

definition app_init :: "settings option \<Rightarrow> filesystem \<Rightarrow> int \<times> int \<Rightarrow> error + app" where
  "app_init saved fs canvas =
     (case and_then
             (case saved of
                None \<Rightarrow> (None, initial canvas)
              | Some st \<Rightarrow> load_savestate st fs (initial canvas))
             (show_grid all_cells) of
        (Some e, s) \<Rightarrow> Inl e
      | (None, s) \<Rightarrow> Inr s)"

section \<open>The session as a transition system\<close>

text \<open>
  What can happen to a running application: the user's menu choices, keys and mouse
  gestures, a change of the canvas size, the steps of the worker threads, and the call
  of \<open>on_image_load_main_thread\<close> a worker scheduled. Handlers run on the main thread,
  one at a time; worker steps happen between them. The transition system allows every
  worker step and every scheduled call at any time, which is more than the executor
  and Tk produce.

  A menu entry exists only where the program made one: \<open>menu_go_to_key\<close> for the
  positions of the key list, \<open>menu_set_gt\<close> for a slot that holds a source (the entry
  is disabled before), \<open>menu_change_view\<close> for the four slots; the prefix dialog
  returns None or a number from 1 to 100.
\<close>

datatype event =
    MenuChangeView nat string filesystem
  | MenuGoToKey nat
  | MenuEnterPrefixLength "int option" filesystem
  | MenuSetGt nat
  | NextImage
  | PrevImage
  | OnZoom tk_event
  | StartDrag tk_event
  | DoDrag tk_event
  | StopDrag
  | CanvasResized int int
  | AfterResize
  | WorkerStart nat
  | WorkerReturn nat "pil_image option"
  | OnImageLoad nat

fun handle :: "event \<Rightarrow> app \<Rightarrow> outcome" where
  "handle (MenuChangeView index chosen fs) s =
     (if index < 4 then menu_change_view index chosen fs s else (None, s))"
| "handle (MenuGoToKey index) s =
     (if index < length (key_list s) then menu_go_to_key (int index) s else (None, s))"
| "handle (MenuEnterPrefixLength result fs) s =
     (case result of
        None \<Rightarrow> menu_enter_prefix_length None fs s
      | Some n \<Rightarrow>
          if 1 \<le> n \<and> n \<le> 100 then menu_enter_prefix_length (Some n) fs s else (None, s))"
| "handle (MenuSetGt index) s =
     (if index < length (image_sources s) \<and> image_sources s ! index \<noteq> None
      then menu_set_gt index s else (None, s))"
| "handle NextImage s = next_image s"
| "handle PrevImage s = prev_image s"
| "handle (OnZoom event) s = on_zoom event s"
| "handle (StartDrag event) s = start_drag event s"
| "handle (DoDrag event) s = do_drag event s"
| "handle StopDrag s = stop_drag s"
| "handle (CanvasResized w h) s = (None, s\<lparr>canvas_size := (w, h)\<rparr>)"
| "handle AfterResize s = after_resize s"
| "handle (WorkerStart f) s = (None, worker_start f s)"
| "handle (WorkerReturn f r) s = (None, worker_return f r s)"
| "handle (OnImageLoad index) s =
     (if index < 4 then on_image_load_main_thread index s else (None, s))"

definition step :: "app \<Rightarrow> event \<Rightarrow> app" where
  "step s e = snd (handle e s)"

definition run :: "app \<Rightarrow> event list \<Rightarrow> app" where
  "run s es = foldl step s es"

section \<open>Example inputs\<close>

text \<open>
  Two directories with the same two images, and a settings file that names the first as
  the source of slot 0 with prefix length 2 and key index 2.
\<close>

definition example_fs :: filesystem where
  "example_fs p =
     (if p = ''/a'' \<or> p = ''/b''
      then Some \<lparr>dir_label = None, dir_images = [''k1.png'', ''k2.png'']\<rparr>
      else None)"

definition example_saved :: settings where
  "example_saved =
     \<lparr>saved_sources = Some [''/a''], saved_prefix_length = Some 2,
      saved_key_index = Some 2, saved_gt_index = None\<rparr>"

text \<open>A settings file that names both directories, with key index 0.\<close>

definition example_two :: settings where
  "example_two =
     \<lparr>saved_sources = Some [''/a'', ''/b''], saved_prefix_length = Some 2,
      saved_key_index = Some 0, saved_gt_index = None\<rparr>"

section \<open>The viewport invariant\<close>

text \<open>
  The viewport of a state is its zoom and crop centre. It is in range when the zoom is
  between 1 and 100 and each coordinate of the centre is at least \<open>0.5/zoom\<close> and at
  most \<open>1 - 0.5/zoom\<close>.
\<close>

definition vp_ok :: "real \<times> real \<times> real \<Rightarrow> bool" where
  "vp_ok v = (case v of (z, cx, cy) \<Rightarrow>
      1 \<le> z \<and> z \<le> 100 \<and> (1/2) / z \<le> cx \<and> cx \<le> 1 - (1/2) / z
        \<and> (1/2) / z \<le> cy \<and> cy \<le> 1 - (1/2) / z)"

definition viewport :: "app \<Rightarrow> real \<times> real \<times> real" where
  "viewport s = (zoom s, crop_center s)"

definition viewport_ok :: "app \<Rightarrow> bool" where
  "viewport_ok s = vp_ok (viewport s)"

text \<open>Mouse events used in the examples.\<close>

definition wheel_up :: tk_event where
  "wheel_up = \<lparr>event_num = None, event_delta = 120, event_x = 300, event_y = 200\<rparr>"

definition wheel_down :: tk_event where
  "wheel_down = \<lparr>event_num = None, event_delta = - 120, event_x = 300, event_y = 200\<rparr>"

definition mouse_at :: "int \<Rightarrow> int \<Rightarrow> tk_event" where
  "mouse_at a b = \<lparr>event_num = None, event_delta = 0, event_x = a, event_y = b\<rparr>"

section \<open>The metric\<close>

lemma mse_20_0: "mse [20] [0] = Inr (Fin 144)"
  by (simp add: mse_def np_sub_def np_square_def np_mean_def)

lemma exact_mse_20_0: "exact_mse [20] [0] = 400"
  by (simp add: exact_mse_def)

text \<open>
  C2. The metric of \<open>calculate_psnr\<close> is not the PSNR of the exact mean of the squared
  differences: on the one-byte buffers 20 (candidate) and 0 (reference) the uint8 square
  wraps, 400 becomes 144, and the label holds \<open>20*log10(255) - 10*log10(144)\<close>, which
  is not \<open>20*log10(255) - 10*log10(400)\<close>.
\<close>

theorem calculate_psnr_uint8_wraps:
  "calculate_psnr \<lparr>view_path = ''a/k.png'', future = 0, view_image = Some [20],
                    comparison_text = None\<rparr> (Some [0])
     = Inr \<lparr>view_path = ''a/k.png'', future = 0, view_image = Some [20],
            comparison_text = Some (PSNR (Fin (20 * log 10 255 - 10 * log 10 144)))\<rparr>
   \<and> spec_psnr [20] [0] = 20 * log 10 255 - 10 * log 10 400
   \<and> 20 * log 10 255 - 10 * log 10 144 \<noteq> spec_psnr [20] [0]"
proof -
  have "log 10 144 \<noteq> log 10 (400::real)"
  proof
    assume e: "log 10 144 = log 10 (400::real)"
    have "(10::real) powr (log 10 144) = 144"
      by (rule powr_log_cancel) simp_all
    moreover have "(10::real) powr (log 10 400) = 400"
      by (rule powr_log_cancel) simp_all
    ultimately have "(144::real) = 400"
      unfolding e by (rule trans[OF sym])
    then show False by simp
  qed
  then show ?thesis
    by (simp add: calculate_psnr_def mse_20_0 psnr_of_mse_def math_log10_def
        spec_psnr_def exact_mse_20_0)
qed

text \<open>
  C3. On identical buffers the mean squared error is 0 and \<open>calculate_psnr\<close> raises
  ValueError from \<open>math.log10(0.0)\<close>: the zero case is not handled.
\<close>

theorem calculate_psnr_identical_raises:
  "calculate_psnr \<lparr>view_path = ''a/k.png'', future = 0, view_image = Some [7, 7, 7],
                    comparison_text = None\<rparr> (Some [7, 7, 7])
     = Inl ValueError"
  by (simp add: calculate_psnr_def mse_def np_sub_def np_square_def np_mean_def
      psnr_of_mse_def math_log10_def)

section \<open>What a handler leaves unchanged\<close>

lemma snd_and_then:
  "snd (and_then r f) = (case fst r of None \<Rightarrow> snd (f (snd r)) | Some e \<Rightarrow> snd r)"
  by (cases r) (auto simp: and_then_def split: option.splits)

lemma and_then_preserves:
  assumes "P (snd r)" and "\<And>s. P s \<Longrightarrow> P (snd (f s))"
  shows "P (snd (and_then r f))"
  using assms by (simp add: snd_and_then split: option.splits)

lemma show_loop_frame:
  assumes "\<And>s vs. g (s\<lparr>image_views := vs\<rparr>) = g s"
  shows "g (snd (show_loop cells s)) = g s"
proof (induction cells arbitrary: s)
  case Nil
  show ?case by simp
next
  case (Cons i rest)
  show ?case
    by (simp add: Cons.IH assms Let_def split: sum.splits option.splits prod.splits)
qed

lemma show_grid_frame:
  assumes "\<And>s vs. g (s\<lparr>image_views := vs\<rparr>) = g s"
  shows "g (snd (show_grid cells s)) = g s"
  by (simp add: show_grid_def snd_and_then show_loop_frame[of g, OF assms]
      split: prod.splits option.splits)

lemma update_key_list_frame:
  assumes "\<And>s kl ck. g (s\<lparr>key_list := kl, current_key := ck\<rparr>) = g s"
  shows "g (snd (update_key_list s)) = g s"
  by (simp add: update_key_list_def assms Let_def split: sum.splits)

lemma submit_loads_frame:
  assumes "\<And>s l. g (s\<lparr>loader := l\<rparr>) = g s" "\<And>s vs. g (s\<lparr>image_views := vs\<rparr>) = g s"
  shows "g (snd (submit_loads key cells s)) = g s"
proof (induction cells arbitrary: s)
  case Nil
  show ?case by simp
next
  case (Cons i rest)
  show ?case
    by (simp add: Cons.IH assms submit_def split: sum.splits option.splits prod.splits)
qed

lemma load_images_frame:
  assumes "\<And>s l. g (s\<lparr>loader := l\<rparr>) = g s" "\<And>s vs. g (s\<lparr>image_views := vs\<rparr>) = g s"
    "\<And>s z c d. g (s\<lparr>zoom := z, crop_center := c, dragging := d\<rparr>) = g s"
  shows "g (snd (load_images s)) = g s"
  by (simp add: load_images_def Let_def snd_and_then assms submit_loads_frame[of g, OF assms(1,2)]
      split: sum.splits option.splits)

lemma set_gt_loop_frame:
  assumes "\<And>s vs. g (s\<lparr>image_views := vs\<rparr>) = g s"
  shows "g (snd (set_gt_loop k cells s)) = g s"
proof (induction cells arbitrary: s)
  case Nil
  show ?case by simp
next
  case (Cons i rest)
  show ?case
    by (simp add: Cons.IH assms put_view_def split: sum.splits option.splits prod.splits)
qed

lemma view_get_image_frame:
  assumes "\<And>s vs. g (s\<lparr>image_views := vs\<rparr>) = g s"
  shows "view_get_image i s = Inr (s', im) \<Longrightarrow> g s' = g s"
  by (auto simp: view_get_image_def put_view_def assms split: sum.splits option.splits prod.splits)

lemma gt_loaded_loop_frame:
  assumes "\<And>s vs. g (s\<lparr>image_views := vs\<rparr>) = g s"
  shows "g (snd (gt_loaded_loop k cells s)) = g s"
proof (induction cells arbitrary: s)
  case Nil
  show ?case by simp
next
  case (Cons i rest)
  show ?case
    by (auto simp: Cons.IH assms put_view_def dest!: view_get_image_frame[of g, OF assms]
        split: sum.splits option.splits prod.splits)
qed

lemma compare_new_image_frame:
  assumes "\<And>s vs. g (s\<lparr>image_views := vs\<rparr>) = g s"
  shows "g (snd (compare_new_image k s)) = g s"
  by (auto simp: compare_new_image_def assms put_view_def dest!: view_get_image_frame[of g, OF assms]
        split: sum.splits option.splits prod.splits)

lemma on_image_load_main_thread_frame:
  assumes "\<And>s vs. g (s\<lparr>image_views := vs\<rparr>) = g s"
  shows "g (snd (on_image_load_main_thread k s)) = g s"
  by (auto simp: on_image_load_main_thread_def snd_and_then
      gt_loaded_loop_frame[of g, OF assms] compare_new_image_frame[of g, OF assms]
      show_grid_frame[of g, OF assms]
      dest!: view_get_image_frame[of g, OF assms]
      split: sum.splits option.splits prod.splits)

lemma menu_set_gt_frame:
  assumes "\<And>s vs. g (s\<lparr>image_views := vs\<rparr>) = g s" "\<And>s x. g (s\<lparr>gt_index := x\<rparr>) = g s"
  shows "g (snd (menu_set_gt k s)) = g s"
  by (simp add: menu_set_gt_def snd_and_then Let_def
      set_gt_loop_frame[of g, OF assms(1)] show_grid_frame[of g, OF assms(1)] assms(2)
      split: sum.splits option.splits prod.splits)

lemma viewport_simps [simp]:
  "viewport (s\<lparr>image_views := vs\<rparr>) = viewport s"
  "viewport (s\<lparr>loader := l\<rparr>) = viewport s"
  "viewport (s\<lparr>gt_index := x\<rparr>) = viewport s"
  "viewport (s\<lparr>key_list := kl\<rparr>) = viewport s"
  "viewport (s\<lparr>current_key := ck\<rparr>) = viewport s"
  "viewport (s\<lparr>image_sources := srcs\<rparr>) = viewport s"
  "viewport (s\<lparr>prefix_length := n\<rparr>) = viewport s"
  "viewport (s\<lparr>dragging := d\<rparr>) = viewport s"
  "viewport (s\<lparr>canvas_size := c\<rparr>) = viewport s"
  "viewport (s\<lparr>start_drag_mouse := m\<rparr>) = viewport s"
  "viewport (s\<lparr>start_drag_crop_center := sc\<rparr>) = viewport s"
  by (simp_all add: viewport_def)

lemma load_images_viewport:
  "viewport (snd (load_images s)) = viewport s \<or> viewport (snd (load_images s)) = (1, 1/2, 1/2)"
  by (auto simp: load_images_def Let_def snd_and_then viewport_def
      submit_loads_frame[where g = zoom] submit_loads_frame[where g = crop_center]
      split: sum.splits option.splits)

lemma vp_ok_reset: "vp_ok (1, 1/2, 1/2)"
  by (simp add: vp_ok_def)

lemma load_images_viewport_ok: "viewport_ok s \<Longrightarrow> viewport_ok (snd (load_images s))"
  using load_images_viewport[of s] by (auto simp: viewport_ok_def vp_ok_reset)

lemma show_grid_viewport_ok: "viewport_ok s \<Longrightarrow> viewport_ok (snd (show_grid cells s))"
  by (simp add: viewport_ok_def show_grid_frame[where g = viewport])

lemma update_key_list_viewport_ok: "viewport_ok s \<Longrightarrow> viewport_ok (snd (update_key_list s))"
  by (simp add: viewport_ok_def update_key_list_frame[where g = viewport])

lemma clamp_center_bounds:
  assumes "1 \<le> z"
  shows "(1/2) / z \<le> clamp_center c ((1/2) / z)" "clamp_center c ((1/2) / z) \<le> 1 - (1/2) / z"
proof -
  have "(1/2) / z \<le> 1/2" using assms by (simp add: field_simps)
  then have "(1/2) / z \<le> 1 - (1/2) / z" by simp
  then show "(1/2) / z \<le> clamp_center c ((1/2) / z)" "clamp_center c ((1/2) / z) \<le> 1 - (1/2) / z"
    by (simp_all add: clamp_center_def)
qed

lemma on_zoom_viewport_ok: "viewport_ok (snd (on_zoom event s))"
proof -
  define z where "z = max 1 (min (zoom s * (if zoom_delta event > 0 then 11 / 10 else 9 / 10)) 100)"
  have z: "1 \<le> z" "z \<le> 100" by (simp_all add: z_def)
  obtain cx cy where c: "crop_center s = (cx, cy)" by (cases "crop_center s")
  have "viewport (snd (on_zoom event s)) = (z, clamp_center cx ((1/2)/z), clamp_center cy ((1/2)/z))"
    by (simp add: on_zoom_def Let_def c show_grid_frame[where g = viewport] z_def)
       (simp add: viewport_def)
  then show ?thesis
    using z clamp_center_bounds[OF z(1)] by (simp add: viewport_ok_def vp_ok_def)
qed

lemma do_drag_viewport_ok:
  assumes ok: "viewport_ok s"
  shows "viewport_ok (snd (do_drag event s))"
proof -
  from ok have z: "1 \<le> zoom s"
    by (simp add: viewport_ok_def vp_ok_def viewport_def split: prod.splits)
  obtain cw ch where cell: "current_cell_size s = (cw, ch)"
    by (cases "current_cell_size s")
  obtain cx cy where start: "start_drag_crop_center s = (cx, cy)"
    by (cases "start_drag_crop_center s")
  show ?thesis
  proof (cases "dragging s \<and> real_of_int cw * zoom s \<noteq> 0 \<and> real_of_int ch * zoom s \<noteq> 0")
    case False
    then have "snd (do_drag event s) = s"
      by (auto simp: do_drag_def Let_def cell start)
    with ok show ?thesis by simp
  next
    case True
    define a where "a = cx - real_of_int (event_x event - fst (start_drag_mouse s)) / (real_of_int cw * zoom s)"
    define b where "b = cy - real_of_int (event_y event - snd (start_drag_mouse s)) / (real_of_int ch * zoom s)"
    from True have "snd (do_drag event s) =
        snd (show_grid all_cells (s\<lparr>crop_center := (clamp_center a ((1/2) / zoom s),
                                                     clamp_center b ((1/2) / zoom s))\<rparr>))"
      by (simp add: do_drag_def Let_def cell start a_def b_def)
    then have "viewport (snd (do_drag event s)) =
        (zoom s, clamp_center a ((1/2) / zoom s), clamp_center b ((1/2) / zoom s))"
      by (simp add: show_grid_frame[where g = viewport]) (simp add: viewport_def)
    then show ?thesis
      using ok clamp_center_bounds[OF z] by (simp add: viewport_ok_def vp_ok_def viewport_def)
  qed
qed

section \<open>The viewport in every reachable state\<close>

lemma recreate_sources_length:
  "recreate_sources fs n srcs = Inr xs \<Longrightarrow> length xs = length srcs"
  by (induction fs n srcs arbitrary: xs rule: recreate_sources.induct)
     (auto split: sum.splits)

lemma and_then_viewport_ok:
  assumes "viewport_ok (snd r)" and "\<And>s. viewport_ok s \<Longrightarrow> viewport_ok (snd (f s))"
  shows "viewport_ok (snd (and_then r f))"
  using assms by (rule and_then_preserves)

lemma reload_viewport_ok:
  assumes "viewport_ok s"
  shows "viewport_ok (snd (and_then (and_then (update_key_list s) load_images)
                             (show_grid all_cells)))"
  by (intro and_then_viewport_ok update_key_list_viewport_ok load_images_viewport_ok
      show_grid_viewport_ok assms)

lemma navigate_viewport_ok:
  assumes "viewport_ok s"
  shows "viewport_ok (snd (and_then (load_images s) (show_grid all_cells)))"
  by (intro and_then_viewport_ok load_images_viewport_ok show_grid_viewport_ok assms)

lemma viewport_ok_simps [simp]:
  "viewport_ok (s\<lparr>image_sources := srcs\<rparr>) = viewport_ok s"
  "viewport_ok (s\<lparr>gt_index := x\<rparr>) = viewport_ok s"
  "viewport_ok (s\<lparr>current_key := ck\<rparr>) = viewport_ok s"
  "viewport_ok (s\<lparr>prefix_length := n\<rparr>) = viewport_ok s"
  "viewport_ok (s\<lparr>loader := l\<rparr>) = viewport_ok s"
  "viewport_ok (s\<lparr>canvas_size := c\<rparr>) = viewport_ok s"
  "viewport_ok (s\<lparr>dragging := d\<rparr>) = viewport_ok s"
  "viewport_ok (s\<lparr>start_drag_mouse := m\<rparr>) = viewport_ok s"
  "viewport_ok (s\<lparr>start_drag_crop_center := sc\<rparr>) = viewport_ok s"
  by (simp_all add: viewport_ok_def)

lemma menu_change_view_viewport_ok:
  assumes "viewport_ok s"
  shows "viewport_ok (snd (menu_change_view index chosen fs s))"
proof (cases "chosen = [] \<or> length (image_sources s) \<le> index")
  case True
  with assms show ?thesis
    by (auto simp: menu_change_view_def split: sum.splits)
next
  case False
  show ?thesis
  proof (cases "ImageSource fs chosen (prefix_length s)")
    case (Inl e)
    with assms False show ?thesis by (simp add: menu_change_view_def)
  next
    case (Inr src)
    with False show ?thesis
      by (simp add: menu_change_view_def Let_def reload_viewport_ok assms)
  qed
qed

lemma menu_go_to_key_viewport_ok:
  "viewport_ok s \<Longrightarrow> viewport_ok (snd (menu_go_to_key index s))"
  by (simp add: menu_go_to_key_def navigate_viewport_ok)

lemma menu_enter_prefix_length_viewport_ok:
  assumes "viewport_ok s"
  shows "viewport_ok (snd (menu_enter_prefix_length result fs s))"
proof (cases result)
  case None
  with assms show ?thesis by (simp add: menu_enter_prefix_length_def)
next
  case (Some n)
  show ?thesis
  proof (cases "recreate_sources fs n (image_sources s)")
    case (Inl e)
    with Some assms show ?thesis by (simp add: menu_enter_prefix_length_def)
  next
    case (Inr srcs)
    with Some show ?thesis
      by (simp add: menu_enter_prefix_length_def reload_viewport_ok assms)
  qed
qed

lemma next_image_viewport_ok: "viewport_ok s \<Longrightarrow> viewport_ok (snd (next_image s))"
  by (simp add: next_image_def navigate_viewport_ok split: option.splits)

lemma prev_image_viewport_ok: "viewport_ok s \<Longrightarrow> viewport_ok (snd (prev_image s))"
  by (simp add: prev_image_def navigate_viewport_ok split: option.splits)

lemma handle_viewport_ok: "viewport_ok s \<Longrightarrow> viewport_ok (snd (handle e s))"
proof (cases e)
  case (MenuSetGt index)
  then show "viewport_ok s \<Longrightarrow> ?thesis"
    by (simp add: viewport_ok_def menu_set_gt_frame[where g = viewport])
next
  case (OnImageLoad index)
  then show "viewport_ok s \<Longrightarrow> ?thesis"
    by (simp add: viewport_ok_def on_image_load_main_thread_frame[where g = viewport])
next
  case (StartDrag event)
  then show "viewport_ok s \<Longrightarrow> ?thesis"
    by (simp add: viewport_ok_def start_drag_def)
next
  case StopDrag
  then show "viewport_ok s \<Longrightarrow> ?thesis"
    by (simp add: viewport_ok_def stop_drag_def show_grid_frame[where g = viewport])
next
  case AfterResize
  then show "viewport_ok s \<Longrightarrow> ?thesis"
    by (simp add: viewport_ok_def after_resize_def show_grid_frame[where g = viewport])
next
  case (WorkerStart f)
  then show "viewport_ok s \<Longrightarrow> ?thesis"
    by (simp add: viewport_ok_def worker_start_def)
next
  case (WorkerReturn f r)
  then show "viewport_ok s \<Longrightarrow> ?thesis"
    by (simp add: viewport_ok_def worker_return_def)
qed (simp_all add: menu_change_view_viewport_ok menu_go_to_key_viewport_ok
      menu_enter_prefix_length_viewport_ok next_image_viewport_ok prev_image_viewport_ok
      on_zoom_viewport_ok do_drag_viewport_ok split: option.splits)

lemma run_viewport_ok: "viewport_ok s \<Longrightarrow> viewport_ok (run s es)"
  unfolding run_def
  by (induction es arbitrary: s) (simp_all add: step_def handle_viewport_ok)

lemma initial_viewport_ok: "viewport_ok (initial canvas)"
  by (simp add: viewport_ok_def viewport_def initial_def vp_ok_def)

lemma load_savestate_viewport_ok:
  assumes "viewport_ok s"
  shows "viewport_ok (snd (load_savestate st fs s))"
proof (cases "saved_sources st")
  case None
  with assms show ?thesis by (simp add: load_savestate_def)
next
  case (Some paths)
  have "viewport_ok (snd (load_saved_sources st fs paths s))"
    using assms
    by (simp add: load_saved_sources_def Let_def update_key_list_viewport_ok
        split: sum.splits option.splits)
  moreover have "viewport_ok (snd (load_images (restore_gt_index st (restore_key_index st s2))))"
    if "viewport_ok s2" for s2
    using that
    by (intro load_images_viewport_ok)
       (simp add: restore_gt_index_def restore_key_index_def split: option.splits)
  ultimately show ?thesis
    using Some by (simp add: load_savestate_def and_then_viewport_ok)
qed

lemma app_init_snd:
  "app_init saved fs canvas = Inr s0 \<Longrightarrow>
   s0 = snd (and_then (case saved of None \<Rightarrow> (None, initial canvas)
                       | Some st \<Rightarrow> load_savestate st fs (initial canvas))
               (show_grid all_cells))"
  by (auto simp: app_init_def split: prod.splits option.splits)

lemma app_init_viewport_ok:
  assumes "app_init saved fs canvas = Inr s0"
  shows "viewport_ok s0"
proof -
  have "viewport_ok (snd (case saved of None \<Rightarrow> (None, initial canvas)
                       | Some st \<Rightarrow> load_savestate st fs (initial canvas)))"
    by (simp add: initial_viewport_ok load_savestate_viewport_ok split: option.splits)
  then show ?thesis
    unfolding app_init_snd[OF assms]
    by (intro and_then_viewport_ok show_grid_viewport_ok)
qed

text \<open>
  C8. In every state a session reaches, from start-up through any sequence of events,
  each coordinate of the crop centre lies between \<open>0.5/zoom\<close> and \<open>1 - 0.5/zoom\<close>;
  at zoom 1 the centre is exactly \<open>(0.5, 0.5)\<close>.
\<close>

theorem crop_center_clamped:
  assumes "app_init saved fs canvas = Inr s0"
  shows "(1/2) / zoom (run s0 es) \<le> fst (crop_center (run s0 es))
       \<and> fst (crop_center (run s0 es)) \<le> 1 - (1/2) / zoom (run s0 es)
       \<and> (1/2) / zoom (run s0 es) \<le> snd (crop_center (run s0 es))
       \<and> snd (crop_center (run s0 es)) \<le> 1 - (1/2) / zoom (run s0 es)
       \<and> (zoom (run s0 es) = 1 \<longrightarrow> crop_center (run s0 es) = (1/2, 1/2))"
proof -
  have "viewport_ok (run s0 es)"
    using assms by (intro run_viewport_ok app_init_viewport_ok)
  then show ?thesis
    by (cases "crop_center (run s0 es)") (auto simp: viewport_ok_def vp_ok_def viewport_def)
qed

lemma app_init_no_settings:
  "app_init None example_fs (1200, 850) = Inr (initial (1200, 850))"
  by code_simp

lemma zoom_back_to_one:
  "zoom (run (initial (1200, 850))
      [OnZoom wheel_up, OnZoom wheel_up, StartDrag (mouse_at 300 200),
       DoDrag (mouse_at 100 100), OnZoom wheel_down, OnZoom wheel_down]) = 1"
  by code_simp

theorem crop_center_clamped_witness:
  "app_init None example_fs (1200, 850) = Inr (initial (1200, 850))
   \<and> zoom (run (initial (1200, 850))
        [OnZoom wheel_up, OnZoom wheel_up, StartDrag (mouse_at 300 200),
         DoDrag (mouse_at 100 100), OnZoom wheel_down, OnZoom wheel_down]) = 1
   \<and> crop_center (run (initial (1200, 850))
        [OnZoom wheel_up, OnZoom wheel_up, StartDrag (mouse_at 300 200),
         DoDrag (mouse_at 100 100), OnZoom wheel_down, OnZoom wheel_down]) = (1/2, 1/2)"
  using crop_center_clamped[OF app_init_no_settings,
      of "[OnZoom wheel_up, OnZoom wheel_up, StartDrag (mouse_at 300 200),
           DoDrag (mouse_at 100 100), OnZoom wheel_down, OnZoom wheel_down]"]
    app_init_no_settings zoom_back_to_one
  by simp

section \<open>Start-up, key list and navigation\<close>

text \<open>
  C1. The key index restored at start-up can lie outside the key list: with two keys and
  a saved key index of 2, line 148 sets \<open>current_key\<close> to \<open>min(2, 2) = 2\<close>, one past the
  last position, and \<open>load_images\<close> then raises IndexError in the constructor.
\<close>

theorem restored_key_index_out_of_range:
  "(case load_saved_sources example_saved example_fs [''/a''] (initial (1200, 850)) of
      (e, s2) \<Rightarrow> e = None \<and> key_list s2 = [''k1'', ''k2'']
                 \<and> current_key (restore_key_index example_saved s2) = Some 2)
   \<and> app_init (Some example_saved) example_fs (1200, 850) = Inl IndexError"
  by code_simp

text \<open>
  C5. With no source configured \<open>update_key_list\<close> raises TypeError instead of giving
  the empty key list: directly, and when the prefix length is entered before any
  directory was chosen.
\<close>

theorem update_key_list_no_sources:
  "update_key_list (initial canvas) = (Some TypeError, initial canvas)
   \<and> handle (MenuEnterPrefixLength (Some 4) fs) (initial canvas)
       = (Some TypeError, (initial canvas)\<lparr>prefix_length := 4\<rparr>)"
  by (simp add: update_key_list_def initial_def available_def common_keys_def
      List.map_filter_simps menu_enter_prefix_length_def and_then_def)

text \<open>
  C6. With an empty key list the current key is None, and \<open>next_image\<close> and
  \<open>prev_image\<close> raise TypeError; they are not silent no-ops.
\<close>

theorem next_prev_empty_key_list:
  "next_image (initial canvas) = (Some TypeError, initial canvas)
   \<and> prev_image (initial canvas) = (Some TypeError, initial canvas)"
  by (simp add: next_image_def prev_image_def initial_def)

section \<open>Ground truth\<close>

text \<open>
  C4. Designating pane 0 as ground truth while pane 1 is not decoded raises
  AttributeError: \<open>menu_set_gt\<close> calls \<open>calculate_psnr\<close> on the view of pane 1, whose
  image is None. Here both panes were loaded at start-up and only the decode of pane 0
  has finished.
\<close>

theorem menu_set_gt_undecoded_pane_raises:
  "(case app_init (Some example_two) example_fs (1200, 850) of
      Inl e \<Rightarrow> False
    | Inr s0 \<Rightarrow>
        (case handle (MenuSetGt 0)
                (run s0 [WorkerStart 0, WorkerReturn 0 (Some [1, 2, 3]), OnImageLoad 0]) of
           (e, s) \<Rightarrow> e = Some AttributeError
              \<and> map (map_option view_image) (image_views s)
                  = [Some (Some [1, 2, 3]), Some None, None, None]))"
  by code_simp

text \<open>
  C10. Assigning a directory to the pane that is the ground truth clears the
  designation: after \<open>menu_change_view\<close> the slot holds the new source and
  \<open>gt_index\<close> is None.
\<close>

theorem menu_change_view_clears_gt:
  assumes "index < length (image_sources s)"
    and "chosen \<noteq> []"
    and "ImageSource fs chosen (prefix_length s) = Inr src"
    and "gt_index s = Some (int index)"
  shows "gt_index (snd (menu_change_view index chosen fs s)) = None
       \<and> image_sources (snd (menu_change_view index chosen fs s)) ! index = Some src"
proof -
  let ?s2 = "s\<lparr>image_sources := (image_sources s)[index := Some src], gt_index := None\<rparr>"
  let ?g = "\<lambda>t. (gt_index t, image_sources t)"
  have "?g (snd (and_then (and_then (update_key_list ?s2) load_images) (show_grid all_cells)))
        = ?g ?s2"
    by (intro and_then_preserves[where P = "\<lambda>t. ?g t = ?g ?s2"])
       (simp_all add: update_key_list_frame[where g = ?g] load_images_frame[where g = ?g]
          show_grid_frame[where g = ?g])
  moreover have "menu_change_view index chosen fs s
        = and_then (and_then (update_key_list ?s2) load_images) (show_grid all_cells)"
    using assms by (simp add: menu_change_view_def Let_def)
  ultimately show ?thesis
    using assms(1) by simp
qed

theorem menu_change_view_clears_gt_witness:
  "(0::nat) < length (image_sources (run (initial (1200, 850))
                        [MenuChangeView 0 ''/a'' example_fs, MenuSetGt 0]))
   \<and> ''/b'' \<noteq> []
   \<and> gt_index (run (initial (1200, 850)) [MenuChangeView 0 ''/a'' example_fs, MenuSetGt 0])
       = Some (int 0)
   \<and> gt_index (snd (menu_change_view 0 ''/b'' example_fs
         (run (initial (1200, 850)) [MenuChangeView 0 ''/a'' example_fs, MenuSetGt 0])))
       = None"
proof -
  let ?s = "run (initial (1200, 850)) [MenuChangeView 0 ''/a'' example_fs, MenuSetGt 0]"
  have a: "0 < length (image_sources ?s)" by code_simp
  have b: "ImageSource example_fs ''/b'' (prefix_length ?s)
     = Inr \<lparr>path = ''/b'', label = ''b'', files = [(''k1.png'', ''k1.png''), (''k2.png'', ''k2.png'')]\<rparr>"
    by code_simp
  have c: "gt_index ?s = Some (int 0)" by code_simp
  have d: "''/b'' \<noteq> []" by simp
  have e: "gt_index (snd (menu_change_view 0 ''/b'' example_fs ?s)) = None"
    using menu_change_view_clears_gt[OF a d b c] by (rule conjunct1)
  show ?thesis
    by (intro conjI) (rule a, rule d, rule c, rule e)
qed

section \<open>Zoom\<close>

text \<open>
  Zooming out does not divide by 1.1: after two steps in, the zoom is 1.21, and one step
  out gives \<open>1.21 * 0.9 = 1.089\<close>, not \<open>1.21 / 1.1 = 1.1\<close>.
\<close>

theorem on_zoom_out_counterexample:
  "zoom (run (initial (1200, 850)) [OnZoom wheel_up, OnZoom wheel_up]) = 121 / 100
   \<and> zoom (run (initial (1200, 850)) [OnZoom wheel_up, OnZoom wheel_up, OnZoom wheel_down])
       = 1089 / 1000
   \<and> (1089 / 1000 :: real) \<noteq> max 1 (min ((121 / 100) / (11 / 10)) 100)"
  by code_simp

text \<open>
  C7, amended. \<open>on_zoom\<close> multiplies the zoom by 1.1 when zooming in and by 0.9
  otherwise, clamps the result to the range from 1 to 100, and then clamps each coordinate
  of the crop centre to the range from \<open>0.5/zoom\<close> to \<open>1 - 0.5/zoom\<close> of the new zoom.
\<close>

theorem on_zoom_factor_and_clamp:
  "zoom (snd (on_zoom event s))
     = max 1 (min (zoom s * (if 0 < zoom_delta event then 11 / 10 else 9 / 10)) 100)
   \<and> 1 \<le> zoom (snd (on_zoom event s)) \<and> zoom (snd (on_zoom event s)) \<le> 100
   \<and> fst (crop_center (snd (on_zoom event s)))
       = min (max (fst (crop_center s)) ((1/2) / zoom (snd (on_zoom event s))))
             (1 - (1/2) / zoom (snd (on_zoom event s)))
   \<and> snd (crop_center (snd (on_zoom event s)))
       = min (max (snd (crop_center s)) ((1/2) / zoom (snd (on_zoom event s))))
             (1 - (1/2) / zoom (snd (on_zoom event s)))"
proof -
  obtain cx cy where c: "crop_center s = (cx, cy)"
    by (cases "crop_center s")
  have z: "zoom (snd (on_zoom event s))
     = max 1 (min (zoom s * (if 0 < zoom_delta event then 11 / 10 else 9 / 10)) 100)"
    by (simp add: on_zoom_def Let_def c show_grid_frame[where g = zoom])
  have cc: "crop_center (snd (on_zoom event s))
     = (clamp_center cx ((1/2) / zoom (snd (on_zoom event s))),
        clamp_center cy ((1/2) / zoom (snd (on_zoom event s))))"
    unfolding z by (simp add: on_zoom_def Let_def c show_grid_frame[where g = crop_center])
  have "1 \<le> zoom (snd (on_zoom event s))" "zoom (snd (on_zoom event s)) \<le> 100"
    unfolding z by simp_all
  with z cc show ?thesis
    by (simp add: c clamp_center_def)
qed

end
